theory Spec2Isabelle
  imports Main
begin

section \<open>Kafka ingress: data model\<close>

text \<open>
  Go's \<open>[]byte\<close> payloads are byte lists, errors of the external libraries are carried
  as their message text.
\<close>

type_synonym bytes = "char list"
type_synonym err = string

text \<open>
  The values a decoder hands to the output queue (\<open>chan interface{}\<close>): the map of the
  "json" decoder, \<open>*pb.FieldsSPB\<close> of "spb", \<open>*pb.Fields\<close> of "pb". The three payload
  types belong to other packages and stay type parameters.
\<close>

datatype ('j, 's, 'p) decoded = JsonMap 'j | FieldsSPB 's | Fields 'p

text \<open>
  The library decoders \<open>json.Unmarshal\<close> and \<open>proto.Unmarshal\<close> are parameters. Each is
  called on a fresh zero value, so each is given as the function from the payload to the
  value left in the target and the error returned.
\<close>

record ('j, 's, 'p) codec =
  json_Unmarshal :: "bytes \<Rightarrow> 'j \<times> err option"
  proto_Unmarshal_SPB :: "bytes \<Rightarrow> 's \<times> err option"
  proto_Unmarshal :: "bytes \<Rightarrow> 'p \<times> err option"

text \<open>\<open>sarama.ConsumerMessage\<close>, with the fields that identify a message and its payload.\<close>

record ConsumerMessage =
  Partition :: int
  Offset :: int
  Value :: bytes

text \<open>
  Modelled from the spec: the declaration of the Kafka \<open>Config\<close> struct is not among the
  sources; the spec lists its settings as broker addresses, topic, group identity and
  worker count. \<open>Start\<close> and \<open>newConsumerGroup\<close> read \<open>Brokers\<close>, \<open>Topic\<close> and \<open>Workers\<close>.
\<close>

record Config =
  Brokers :: "string list"
  Topic :: string
  Group :: string
  Workers :: int

text \<open>The opaque key/value settings of an endpoint (\<open>map[string]interface{}\<close>).\<close>

datatype setting = SString string | SInt int | SList "string list"

type_synonym settings = "string \<rightharpoonup> setting"

text \<open>The diagnostic sink attached to a configuration; a nil logger is \<open>None\<close>.\<close>

datatype sink = DefaultLogger | MemSink string

text \<open>
  Modelled from the spec: the declarations of \<open>ServerConfig\<close> and of its parts are not
  among the sources. An endpoint (ingress, ingestion or geo) is a type tag with settings;
  a flow binds an ingress name and an ingestion name under a serialization name. The
  fields are those the tests and \<open>Start\<close> read: \<open>Ingress[name].Config\<close>, \<open>Geo.Type\<close>,
  \<open>Flow[0].Serialization\<close>.
\<close>

record EndpointSpec =
  Type :: string
  Config :: settings

record FlowBinding =
  FlowIngress :: string
  FlowIngestion :: string
  Serialization :: string

record ServerConfig =
  Ingress :: "string \<rightharpoonup> EndpointSpec"
  Ingestion :: "string \<rightharpoonup> EndpointSpec"
  Geo :: EndpointSpec
  Flow :: "FlowBinding list"
  ServerLogger :: "sink option"

text \<open>
  \<open>kafkaConfig\<close>, \<open>saramaConfig\<close> and \<open>sarama.NewConsumerGroup\<close> are not among the sources
  and are parameters of the model.
\<close>

record ('sc, 'g) env =
  kafkaConfig :: "settings \<Rightarrow> Config"
  saramaConfig :: "Config \<Rightarrow> err + 'sc"
  NewConsumerGroup :: "string list \<Rightarrow> string \<Rightarrow> 'sc \<Rightarrow> err + 'g"

record 'g consumerGroup =
  group :: 'g
  serialization :: string

section \<open>The serialization registry\<close>

text \<open>
  \<open>getUnmarshal\<close>: a \<open>switch\<close> over three names; every other name falls through to
  \<open>return nil\<close>, the nil function value, here \<open>None\<close>.
\<close>

definition getUnmarshal ::
  "('j, 's, 'p) codec \<Rightarrow> string \<Rightarrow> (bytes \<Rightarrow> ('j, 's, 'p) decoded \<times> err option) option" where
  "getUnmarshal c ser =
     (if ser = ''json'' then
        Some (\<lambda>b. case json_Unmarshal c b of (m, e) \<Rightarrow> (JsonMap m, e))
      else if ser = ''spb'' then
        Some (\<lambda>b. case proto_Unmarshal_SPB c b of (p, e) \<Rightarrow> (FieldsSPB p, e))
      else if ser = ''pb'' then
        Some (\<lambda>b. case proto_Unmarshal c b of (p, e) \<Rightarrow> (Fields p, e))
      else None)"

section \<open>The worker\<close>

text \<open>
  What a worker has done so far: the values sent on the output queue \<open>ch\<close> and the lines
  written with \<open>log.Println\<close> (the error and the payload as a string).
\<close>

record 'v worker_state =
  forwarded :: "'v list"
  logged :: "(err \<times> bytes) list"

text \<open>Calling the nil function value panics and ends the process.\<close>

datatype panic = NilFuncCall

text \<open>
  The body of the \<open>for\<close> loop of \<open>worker\<close>, run over the payloads the worker receives from
  \<open>bCh\<close>, in order. With no payload left the worker blocks in the receive.
\<close>

fun worker_loop ::
  "(bytes \<Rightarrow> 'v \<times> err option) option \<Rightarrow> bytes list \<Rightarrow> 'v worker_state \<Rightarrow> panic + 'v worker_state" where
  "worker_loop unmarshal [] st = Inr st"
| "worker_loop unmarshal (b # bs) st =
     (case unmarshal of
        None \<Rightarrow> Inl NilFuncCall
      | Some u \<Rightarrow>
          (case u b of
             (i, Some e) \<Rightarrow> worker_loop unmarshal bs (st\<lparr>logged := logged st @ [(e, b)]\<rparr>)
           | (i, None) \<Rightarrow> worker_loop unmarshal bs (st\<lparr>forwarded := forwarded st @ [i]\<rparr>)))"

definition worker ::
  "('j, 's, 'p) codec \<Rightarrow> 'g consumerGroup \<Rightarrow> bytes list \<Rightarrow> panic + ('j, 's, 'p) decoded worker_state" where
  "worker c k bs =
     worker_loop (getUnmarshal c (serialization k)) bs \<lparr>forwarded = [], logged = []\<rparr>"

section \<open>The session handler and the decode queue\<close>

text \<open>
  \<open>Start\<close> makes the decode queue \<open>handler.ch\<close> with \<open>make(chan []byte, 1)\<close>: a send on it
  completes only while fewer than one payload is buffered, and blocks otherwise.
\<close>

definition decode_queue_capacity :: nat where
  "decode_queue_capacity = 1"

text \<open>
  Where the handler stands in \<open>ConsumeClaim\<close>: at the \<open>range\<close> over \<open>claim.Messages()\<close>, at
  the send \<open>h.ch <- message.Value\<close> of the message it holds, at
  \<open>session.MarkMessage(message, "")\<close> for that message, or after \<open>return nil\<close>.
  Where a worker stands: at the receive \<open>b := <-bCh\<close>, or holding a payload it has received
  and not yet decoded.
\<close>

datatype session_pc = Ranging | Sending ConsumerMessage | Marking ConsumerMessage | Returned

datatype worker_pc = Receiving | Decoding bytes

text \<open>
  The handler, the decode queue and the workers of one \<open>Start\<close>, running concurrently:
  the messages the claim has yet to deliver, the place of the handler, the payloads
  buffered in the decode queue, the messages whose payload has been sent on it, the
  messages marked, the place of each worker, what the workers have forwarded and logged,
  and whether a worker has panicked, which ends the process.
\<close>

record 'v pipeline =
  claim :: "ConsumerMessage list"
  session :: session_pc
  queue :: "bytes list"
  handed :: "ConsumerMessage list"
  marked :: "ConsumerMessage list"
  workers :: "worker_pc list"
  results :: "'v worker_state"
  crashed :: bool

text \<open>
  One action of \<open>ConsumeClaim\<close>; \<open>None\<close> when the handler cannot move: blocked in the send on
  a full queue, or returned. The \<open>range\<close> ends, and the handler returns nil, when the claim
  has no message left.
\<close>

definition ConsumeClaim_step :: "'v pipeline \<Rightarrow> 'v pipeline option" where
  "ConsumeClaim_step s =
     (case session s of
        Ranging \<Rightarrow>
          (case claim s of
             [] \<Rightarrow> Some (s\<lparr>session := Returned\<rparr>)
           | message # rest \<Rightarrow> Some (s\<lparr>claim := rest, session := Sending message\<rparr>))
      | Sending message \<Rightarrow>
          (if length (queue s) < decode_queue_capacity then
             Some (s\<lparr>queue := queue s @ [Value message], handed := handed s @ [message],
                     session := Marking message\<rparr>)
           else None)
      | Marking message \<Rightarrow>
          Some (s\<lparr>marked := marked s @ [message], session := Ranging\<rparr>)
      | Returned \<Rightarrow> None)"

text \<open>
  One action of worker \<open>i\<close>, with the decoder \<open>getUnmarshal\<close> gave it: the receive, which
  blocks on an empty queue, or one pass of the loop body on the payload received (decode,
  then log or forward), where calling the nil decoder panics.
\<close>

definition worker_step ::
  "(bytes \<Rightarrow> 'v \<times> err option) option \<Rightarrow> nat \<Rightarrow> 'v pipeline \<Rightarrow> 'v pipeline option" where
  "worker_step unmarshal i s =
     (if length (workers s) \<le> i then None
      else
        (case workers s ! i of
           Receiving \<Rightarrow>
             (case queue s of
                [] \<Rightarrow> None
              | b # q \<Rightarrow> Some (s\<lparr>queue := q, workers := (workers s)[i := Decoding b]\<rparr>))
         | Decoding b \<Rightarrow>
             (case worker_loop unmarshal [b] (results s) of
                Inl p \<Rightarrow> Some (s\<lparr>crashed := True\<rparr>)
              | Inr r \<Rightarrow> Some (s\<lparr>results := r, workers := (workers s)[i := Receiving]\<rparr>))))"

text \<open>
  The scheduler picks the goroutine that moves next; a schedule is the list of its picks.
  Nothing moves after a panic. \<open>run\<close> is \<open>None\<close> when the schedule picks a goroutine that
  cannot move.
\<close>

datatype action = SessionStep | WorkerStep nat

definition step ::
  "(bytes \<Rightarrow> 'v \<times> err option) option \<Rightarrow> action \<Rightarrow> 'v pipeline \<Rightarrow> 'v pipeline option" where
  "step unmarshal a s =
     (if crashed s then None
      else (case a of SessionStep \<Rightarrow> ConsumeClaim_step s | WorkerStep i \<Rightarrow> worker_step unmarshal i s))"





section \<open>Start\<close>

text \<open>
  \<open>newConsumerGroup\<close>: the sarama configuration, then the consumer group on the
  configured brokers under the group identity written in the code. The \<open>serialization\<close>
  field is left at its zero value.
\<close>

definition newConsumerGroup :: "('sc, 'g) env \<Rightarrow> Config \<Rightarrow> err + 'g consumerGroup" where
  "newConsumerGroup E kCfg =
     (case saramaConfig E kCfg of
        Inl e \<Rightarrow> Inl e
      | Inr sConfig \<Rightarrow>
          (case NewConsumerGroup E (Brokers kCfg) ''tcpdog'' sConfig of
             Inl e \<Rightarrow> Inl e
           | Inr g \<Rightarrow> Inr \<lparr>group = g, serialization = []\<rparr>))"

text \<open>
  The goroutines \<open>Start\<close> spawns: the drain of \<open>cg.group.Errors()\<close>, the loop around
  \<open>cg.group.Consume\<close> with its topic list, and the workers.
\<close>

datatype 'g task = ErrorDrain 'g | Supervisor 'g "string list" | Worker "'g consumerGroup"

text \<open>
  Indexing the \<open>Ingress\<close> map with a name it does not hold gives the zero value, whose
  settings map is nil; a nil map reads as the empty map.
\<close>

definition ingress_settings :: "ServerConfig \<Rightarrow> string \<Rightarrow> settings" where
  "ingress_settings srv name =
     (case Ingress srv name of None \<Rightarrow> Map.empty | Some i \<Rightarrow> Config i)"

text \<open>
  \<open>Start\<close> returns its error value together with the goroutines spawned, in the order of
  the \<open>go\<close> statements. The worker loop runs \<open>i\<close> from 0 while \<open>i < kCfg.Workers\<close>.
\<close>

definition Start ::
  "('sc, 'g) env \<Rightarrow> ServerConfig \<Rightarrow> string \<Rightarrow> string \<Rightarrow> err option \<times> 'g task list" where
  "Start E srv name ser =
     (let kCfg = kafkaConfig E (ingress_settings srv name) in
      case newConsumerGroup E kCfg of
        Inl e \<Rightarrow> (Some e, [])
      | Inr cg0 \<Rightarrow>
          (let cg = cg0\<lparr>serialization := ser\<rparr> in
           (None,
            [ErrorDrain (group cg), Supervisor (group cg) [Topic kCfg]]
              @ replicate (nat (Workers kCfg)) (Worker cg))))"

text \<open>
  What a spawned task sends on the output queue when the payloads \<open>bs\<close> reach it: only
  \<open>worker\<close> holds the queue, and a worker that panics has sent nothing before.
\<close>

definition task_output ::
  "('j, 's, 'p) codec \<Rightarrow> 'g task \<Rightarrow> bytes list \<Rightarrow> ('j, 's, 'p) decoded list" where
  "task_output c t bs =
     (case t of
        ErrorDrain g \<Rightarrow> []
      | Supervisor g topics \<Rightarrow> []
      | Worker k \<Rightarrow> (case worker c k bs of Inl p \<Rightarrow> [] | Inr st \<Rightarrow> forwarded st))"

section \<open>The supervising loop\<close>

text \<open>
  The state of the loop around \<open>cg.group.Consume\<close>: how many calls have returned and the
  errors logged. The outcome of the \<open>k\<close>-th call is given by \<open>consume k\<close> (\<open>None\<close> is nil).
\<close>

record sup_state =
  calls :: nat
  errors_logged :: "err list"

text \<open>
  The \<open>for { ... }\<close> loop, run for at most \<open>fuel\<close> passes: each pass calls \<open>Consume\<close>, logs the
  error if there is one, and goes round again. The result is the value the goroutine
  returned, \<open>None\<close> while it is still in the loop when the fuel is spent, and the state
  reached. The loop body has no \<open>break\<close> and no \<open>return\<close>.
\<close>

fun supervise :: "nat \<Rightarrow> (nat \<Rightarrow> err option) \<Rightarrow> sup_state \<Rightarrow> unit option \<times> sup_state" where
  "supervise 0 consume st = (None, st)"
| "supervise (Suc fuel) consume st =
     (case consume (calls st) of
        None \<Rightarrow> supervise fuel consume (st\<lparr>calls := Suc (calls st)\<rparr>)
      | Some e \<Rightarrow>
          supervise fuel consume
            (st\<lparr>calls := Suc (calls st), errors_logged := errors_logged st @ [e]\<rparr>))"

section \<open>Configuration resolution\<close>

subsection \<open>Transform\<close>

text \<open>
  Modelled from the spec: \<open>Transform\<close> is not among the sources (its test is). "Copies
  values from source into target's matching fields by name; fails with a TransformError if
  source is not a mapping-like container (e.g. a stream/channel value is rejected),
  leaving target unmodified on failure." A generic source is a mapping, a channel or a
  plain value; a typed shape is the list of its fields with their current values. The
  test fills the fields \<open>Foo\<close> and \<open>Key\<close> from the keys \<open>foo\<close> and \<open>key\<close>, so names match
  up to the case of their letters.
\<close>

datatype gvalue = GString string | GInt int | GBool bool

datatype generic = GMapping "(string \<times> gvalue) list" | GChannel | GPlain gvalue

type_synonym shape = "(string \<times> gvalue) list"

datatype TransformError = UnsupportedSource

definition lower_char :: "char \<Rightarrow> char" where
  "lower_char c =
     (let n = (of_char c :: nat) in if 65 \<le> n \<and> n \<le> 90 then char_of (n + 32) else c)"

definition names_match :: "string \<Rightarrow> string \<Rightarrow> bool" where
  "names_match key field = (map lower_char key = map lower_char field)"

fun lookup_field :: "(string \<times> gvalue) list \<Rightarrow> string \<Rightarrow> gvalue option" where
  "lookup_field [] field = None"
| "lookup_field ((key, v) # rest) field =
     (if names_match key field then Some v else lookup_field rest field)"

definition populate :: "(string \<times> gvalue) list \<Rightarrow> string \<times> gvalue \<Rightarrow> string \<times> gvalue" where
  "populate m f = (case lookup_field m (fst f) of None \<Rightarrow> f | Some v \<Rightarrow> (fst f, v))"

text \<open>The result is the target after the call, with the error returned.\<close>

definition Transform :: "generic \<Rightarrow> shape \<Rightarrow> shape \<times> TransformError option" where
  "Transform source target =
     (case source of
        GMapping m \<Rightarrow> (map (populate m) target, None)
      | GChannel \<Rightarrow> (target, Some UnsupportedSource)
      | GPlain v \<Rightarrow> (target, Some UnsupportedSource))"

subsection \<open>setDefault\<close>

text \<open>
  Modelled from the spec: \<open>setDefault\<close> and the agent's \<open>Config\<close> are not among the sources
  (the test is). "Fills unset numeric fields (worker count defaults to 1 if zero) and
  installs a default diagnostic sink if none is set." The test reads the worker count of
  a tracepoint and the \<open>logger\<close> of the configuration.
\<close>

record Tracepoint =
  Name :: string
  TPWorkers :: int

record AgentConfig =
  Tracepoints :: "Tracepoint list"
  logger :: "sink option"

definition default_workers :: "Tracepoint \<Rightarrow> Tracepoint" where
  "default_workers t = (if TPWorkers t = 0 then t\<lparr>TPWorkers := 1\<rparr> else t)"

definition setDefault :: "AgentConfig \<Rightarrow> AgentConfig" where
  "setDefault c =
     c\<lparr>Tracepoints := map default_workers (Tracepoints c),
       logger := (case logger c of None \<Rightarrow> Some DefaultLogger | Some l \<Rightarrow> Some l)\<rparr>"

subsection \<open>GetServer\<close>

text \<open>
  Modelled from the spec: \<open>GetServer\<close> and \<open>loadServer\<close> are not among the sources (their
  tests are). "Parses a configuration document into the typed ServerConfiguration; fails
  with a ConfigError if the file is missing or malformed"; "a configuration-file flag is
  mandatory; its absence is a fatal startup error". Reading files and parsing the
  document are outside the core: the file system is a map from paths to contents and the
  parser a parameter. The tests pass the flag as \<open>-config\<close> after the program name.
\<close>

datatype ConfigError = MissingConfigFlag | FileNotFound string | Malformed string

fun config_flag :: "string list \<Rightarrow> string option" where
  "config_flag (a # v # rest) = (if a = ''-config'' then Some v else config_flag (v # rest))"
| "config_flag rest = None"

definition loadServer ::
  "(string \<rightharpoonup> string) \<Rightarrow> (string \<Rightarrow> ServerConfig option) \<Rightarrow> string \<Rightarrow> ConfigError + ServerConfig" where
  "loadServer fs parse path =
     (case fs path of
        None \<Rightarrow> Inl (FileNotFound path)
      | Some doc \<Rightarrow> (case parse doc of None \<Rightarrow> Inl (Malformed path) | Some cfg \<Rightarrow> Inr cfg))"

definition setDefaultServer :: "ServerConfig \<Rightarrow> ServerConfig" where
  "setDefaultServer c =
     c\<lparr>ServerLogger := (case ServerLogger c of None \<Rightarrow> Some DefaultLogger | Some l \<Rightarrow> Some l)\<rparr>"

definition GetServer ::
  "(string \<rightharpoonup> string) \<Rightarrow> (string \<Rightarrow> ServerConfig option) \<Rightarrow> string list \<Rightarrow> string
     \<Rightarrow> ConfigError + ServerConfig" where
  "GetServer fs parse args version =
     (case config_flag (drop 1 args) of
        None \<Rightarrow> Inl MissingConfigFlag
      | Some path \<Rightarrow>
          (case loadServer fs parse path of
             Inl e \<Rightarrow> Inl e
           | Inr cfg \<Rightarrow> Inr (setDefaultServer cfg)))"

section \<open>Credentials\<close>

text \<open>
  Modelled from the spec: \<open>GetTLS\<close>, \<open>GetCreds\<close> and \<open>TLSConfig\<close> are not among the sources
  (their test is). "Loads PEM-encoded certificate and private key (required as a pair)
  and trust-anchor material; fails if the trust-anchor path is unreadable/invalid, or if a
  certificate path is given without its matching key (or vice versa)";
  \<open>GetCreds\<close> "wraps the TLS settings into credentials; same failure modes". Parsing a key
  pair and a trust-anchor bundle are parameters, the file system is a map.
\<close>

record TLSConfig =
  Enable :: bool
  CertFile :: string
  KeyFile :: string
  CAFile :: string

datatype CredentialError = Unreadable string | InvalidPEM string | KeyPairError string

record ('cert, 'pool) crypto =
  X509KeyPair :: "string \<Rightarrow> string \<Rightarrow> err + 'cert"
  AppendCertsFromPEM :: "string \<Rightarrow> 'pool option"

record ('cert, 'pool) tls_settings =
  Certificates :: "'cert list"
  RootCAs :: 'pool

datatype ('cert, 'pool) credentials = TransportCredentials "('cert, 'pool) tls_settings"

definition load_key_pair ::
  "(string \<rightharpoonup> string) \<Rightarrow> ('cert, 'pool) crypto \<Rightarrow> TLSConfig \<Rightarrow> CredentialError + 'cert list" where
  "load_key_pair fs X cfg =
     (if CertFile cfg = [] \<and> KeyFile cfg = [] then Inr []
      else if CertFile cfg = [] \<or> KeyFile cfg = [] then
        Inl (KeyPairError ''certificate and key are required as a pair'')
      else
        (case fs (CertFile cfg) of
           None \<Rightarrow> Inl (Unreadable (CertFile cfg))
         | Some certPEM \<Rightarrow>
             (case fs (KeyFile cfg) of
                None \<Rightarrow> Inl (Unreadable (KeyFile cfg))
              | Some keyPEM \<Rightarrow>
                  (case X509KeyPair X certPEM keyPEM of
                     Inl e \<Rightarrow> Inl (KeyPairError e)
                   | Inr cert \<Rightarrow> Inr [cert]))))"

definition load_trust_anchor ::
  "(string \<rightharpoonup> string) \<Rightarrow> ('cert, 'pool) crypto \<Rightarrow> TLSConfig \<Rightarrow> CredentialError + 'pool" where
  "load_trust_anchor fs X cfg =
     (case fs (CAFile cfg) of
        None \<Rightarrow> Inl (Unreadable (CAFile cfg))
      | Some caPEM \<Rightarrow>
          (case AppendCertsFromPEM X caPEM of
             None \<Rightarrow> Inl (InvalidPEM (CAFile cfg))
           | Some pool \<Rightarrow> Inr pool))"

definition GetTLS ::
  "(string \<rightharpoonup> string) \<Rightarrow> ('cert, 'pool) crypto \<Rightarrow> TLSConfig
     \<Rightarrow> CredentialError + ('cert, 'pool) tls_settings" where
  "GetTLS fs X cfg =
     (case load_key_pair fs X cfg of
        Inl e \<Rightarrow> Inl e
      | Inr certs \<Rightarrow>
          (case load_trust_anchor fs X cfg of
             Inl e \<Rightarrow> Inl e
           | Inr pool \<Rightarrow> Inr \<lparr>Certificates = certs, RootCAs = pool\<rparr>))"

definition GetCreds ::
  "(string \<rightharpoonup> string) \<Rightarrow> ('cert, 'pool) crypto \<Rightarrow> TLSConfig
     \<Rightarrow> CredentialError + ('cert, 'pool) credentials" where
  "GetCreds fs X cfg =
     (case GetTLS fs X cfg of Inl e \<Rightarrow> Inl e | Inr t \<Rightarrow> Inr (TransportCredentials t))"

section \<open>Instances of the parameters\<close>

text \<open>
  Concrete collaborators, for evaluating the model at concrete inputs. The JSON decoder
  accepts a payload that opens an object, the binary decoders any non-empty payload; a
  failed decode leaves the zero value in the target.
\<close>

definition sample_codec :: "(string, string, string) codec" where
  "sample_codec =
     \<lparr>json_Unmarshal =
        (\<lambda>b. case b of
               [] \<Rightarrow> ([], Some ''unexpected end of JSON input'')
             | x # xs \<Rightarrow> if x = CHR ''{'' then (b, None) else ([], Some ''invalid character'')),
      proto_Unmarshal_SPB = (\<lambda>b. if b = [] then ([], Some ''unexpected EOF'') else (b, None)),
      proto_Unmarshal = (\<lambda>b. if b = [] then ([], Some ''unexpected EOF'') else (b, None))\<rparr>"

text \<open>Settings read by key, with a default for each key that is absent.\<close>

definition sample_kafkaConfig :: "settings \<Rightarrow> Config" where
  "sample_kafkaConfig s =
     \<lparr>Brokers = (case s ''brokers'' of Some (SList bs) \<Rightarrow> bs | _ \<Rightarrow> [''localhost:9092'']),
      Topic = (case s ''topic'' of Some (SString t) \<Rightarrow> t | _ \<Rightarrow> ''tcpdog''),
      Group = (case s ''group'' of Some (SString g) \<Rightarrow> g | _ \<Rightarrow> ''tcpdog''),
      Workers = (case s ''workers'' of Some (SInt n) \<Rightarrow> n | _ \<Rightarrow> 2)\<rparr>"

text \<open>
  A session is the pair of the brokers and the group identity it was opened with; an
  empty broker list is refused.
\<close>

definition sample_env :: "(unit, string list \<times> string) env" where
  "sample_env =
     \<lparr>kafkaConfig = sample_kafkaConfig,
      saramaConfig = (\<lambda>kCfg. Inr ()),
      NewConsumerGroup =
        (\<lambda>brokers groupID sConfig.
           if brokers = [] then Inl ''kafka: invalid configuration'' else Inr (brokers, groupID))\<rparr>"

definition kafka_settings :: settings where
  "kafka_settings =
     [''brokers'' \<mapsto> SList [''broker1:9092''], ''topic'' \<mapsto> SString ''events'',
      ''group'' \<mapsto> SString ''analytics'', ''workers'' \<mapsto> SInt 2]"

definition kafka_server :: ServerConfig where
  "kafka_server =
     \<lparr>Ingress = [''kafka'' \<mapsto> \<lparr>Type = ''kafka'', Config = kafka_settings\<rparr>,
                 ''nobroker'' \<mapsto> \<lparr>Type = ''kafka'', Config = [''brokers'' \<mapsto> SList []]\<rparr>],
      Ingestion = Map.empty,
      Geo = \<lparr>Type = [], Config = Map.empty\<rparr>,
      Flow = [\<lparr>FlowIngress = ''kafka'', FlowIngestion = ''elasticsearch'', Serialization = ''json''\<rparr>],
      ServerLogger = Some DefaultLogger\<rparr>"

text \<open>The document of \<open>TestGetServer\<close>, as the parser returns it, and a one-file file system.\<close>

definition grpc_server :: ServerConfig where
  "grpc_server =
     \<lparr>Ingress = [''grpc'' \<mapsto> \<lparr>Type = ''grpc'', Config = Map.empty\<rparr>],
      Ingestion = [''elasticsearch'' \<mapsto> \<lparr>Type = ''elasticsearch'', Config = Map.empty\<rparr>],
      Geo = \<lparr>Type = ''maxmind'', Config = Map.empty\<rparr>,
      Flow = [\<lparr>FlowIngress = ''grpc'', FlowIngestion = ''elasticsearch'', Serialization = ''spb''\<rparr>],
      ServerLogger = None\<rparr>"

definition sample_files :: "string \<rightharpoonup> string" where
  "sample_files =
     [''/tmp/config.yml'' \<mapsto> ''server document'',
      ''/tmp/certFile'' \<mapsto> ''CERTIFICATE foo'',
      ''/tmp/keyFile'' \<mapsto> ''RSA PRIVATE KEY foo'',
      ''/tmp/caFile'' \<mapsto> ''CERTIFICATE foo'']"

definition sample_parse :: "string \<Rightarrow> ServerConfig option" where
  "sample_parse doc = (if doc = ''server document'' then Some grpc_server else None)"

definition sample_crypto :: "(string, string list) crypto" where
  "sample_crypto =
     \<lparr>X509KeyPair =
        (\<lambda>certPEM keyPEM.
           if certPEM = ''CERTIFICATE foo'' \<and> keyPEM = ''RSA PRIVATE KEY foo'' then Inr ''foo''
           else Inl ''tls: failed to find any PEM data in certificate input''),
      AppendCertsFromPEM = (\<lambda>pem. if pem = ''CERTIFICATE foo'' then Some [''foo''] else None)\<rparr>"

section \<open>Auxiliary facts\<close>

lemma getUnmarshal_registered:
  "(getUnmarshal c ser = None) = (ser \<noteq> ''json'' \<and> ser \<noteq> ''spb'' \<and> ser \<noteq> ''pb'')"
  by (simp add: getUnmarshal_def)

lemma worker_loop_nil_func: "worker_loop None (b # bs) st = Inl NilFuncCall"
  by simp

lemma worker_loop_decoder:
  "worker_loop (Some u) bs st =
     Inr \<lparr>forwarded = forwarded st @ map (\<lambda>b. fst (u b)) (filter (\<lambda>b. snd (u b) = None) bs),
          logged = logged st @ map (\<lambda>b. (the (snd (u b)), b)) (filter (\<lambda>b. snd (u b) \<noteq> None) bs)\<rparr>"
proof (induction bs arbitrary: st)
  case Nil
  show ?case by simp
next
  case (Cons b bs)
  show ?case by (cases "u b") (auto simp: Cons.IH split: option.splits)
qed

lemma worker_decoder:
  assumes "getUnmarshal c (serialization k) = Some u"
  shows "worker c k bs =
     Inr \<lparr>forwarded = map (\<lambda>b. fst (u b)) (filter (\<lambda>b. snd (u b) = None) bs),
          logged = map (\<lambda>b. (the (snd (u b)), b)) (filter (\<lambda>b. snd (u b) \<noteq> None) bs)\<rparr>"
  by (simp add: worker_def assms worker_loop_decoder)








lemma no_worker_no_receive: "workers s = [] \<Longrightarrow> step unmarshal (WorkerStep i) s = None"
  by (simp add: step_def worker_step_def)




lemma Start_on_failure:
  "newConsumerGroup E (kafkaConfig E (ingress_settings srv name)) = Inl e \<Longrightarrow>
     Start E srv name ser = (Some e, [])"
  by (simp add: Start_def)

lemma Start_on_success:
  "newConsumerGroup E (kafkaConfig E (ingress_settings srv name)) = Inr cg \<Longrightarrow>
     Start E srv name ser =
       (None,
        [ErrorDrain (group cg),
         Supervisor (group cg) [Topic (kafkaConfig E (ingress_settings srv name))]]
          @ replicate (nat (Workers (kafkaConfig E (ingress_settings srv name))))
              (Worker (cg\<lparr>serialization := ser\<rparr>)))"
  by (simp add: Start_def Let_def)

lemma sample_Start_kafka:
  "Start sample_env kafka_server ''kafka'' ser =
     (None,
      [ErrorDrain ([''broker1:9092''], ''tcpdog''),
       Supervisor ([''broker1:9092''], ''tcpdog'') [''events''],
       Worker \<lparr>group = ([''broker1:9092''], ''tcpdog''), serialization = ser\<rparr>,
       Worker \<lparr>group = ([''broker1:9092''], ''tcpdog''), serialization = ser\<rparr>])"
  by (simp add: Start_def newConsumerGroup_def sample_env_def sample_kafkaConfig_def
      ingress_settings_def kafka_server_def kafka_settings_def numeral_2_eq_2 Let_def)

lemma sample_kafkaConfig_kafka:
  "kafkaConfig sample_env (ingress_settings kafka_server ''kafka'') =
     \<lparr>Brokers = [''broker1:9092''], Topic = ''events'', Group = ''analytics'', Workers = 2\<rparr>"
  by (simp add: sample_env_def sample_kafkaConfig_def ingress_settings_def kafka_server_def
      kafka_settings_def)

lemma sample_kafkaConfig_nobroker:
  "kafkaConfig sample_env (ingress_settings kafka_server ''nobroker'') =
     \<lparr>Brokers = [], Topic = ''tcpdog'', Group = ''tcpdog'', Workers = 2\<rparr>"
  by (simp add: sample_env_def sample_kafkaConfig_def ingress_settings_def kafka_server_def)

lemma default_workers_twice: "default_workers (default_workers t) = default_workers t"
  by (simp add: default_workers_def)

lemma config_flag_absent: "''-config'' \<notin> set xs \<Longrightarrow> config_flag xs = None"
  by (induction xs rule: config_flag.induct) auto

section \<open>The claims\<close>

text \<open>
  C1. The claim: a serialization name that is not registered is rejected by \<open>Start\<close> when
  the flow is constructed, never found out when the first message arrives. The code does
  otherwise: the value \<open>Start\<close> returns does not depend on the serialization name at all,
  so an unregistered name is accepted exactly where ''json'' is; at the name ''xml'' and a
  reachable broker \<open>Start\<close> returns nil with two workers spawned, \<open>getUnmarshal\<close> gives the
  nil function, and the worker panics on the first payload it receives.
\<close>

theorem Start_accepts_unregistered_serialization:
  "fst (Start E srv name ser) = fst (Start E srv name ''json'')
   \<and> Start sample_env kafka_server ''kafka'' ''xml'' =
       (None,
        [ErrorDrain ([''broker1:9092''], ''tcpdog''),
         Supervisor ([''broker1:9092''], ''tcpdog'') [''events''],
         Worker \<lparr>group = ([''broker1:9092''], ''tcpdog''), serialization = ''xml''\<rparr>,
         Worker \<lparr>group = ([''broker1:9092''], ''tcpdog''), serialization = ''xml''\<rparr>])
   \<and> getUnmarshal sample_codec ''xml'' = None
   \<and> worker sample_codec \<lparr>group = ([''broker1:9092''], ''tcpdog''), serialization = ''xml''\<rparr>
         [''<a/>''] = Inl NilFuncCall"
proof -
  have "fst (Start E srv name ser) = fst (Start E srv name ''json'')"
    by (simp add: Start_def Let_def split: sum.splits)
  moreover have "getUnmarshal sample_codec ''xml'' = None"
    by (simp add: getUnmarshal_def)
  moreover have "worker sample_codec
      \<lparr>group = ([''broker1:9092''], ''tcpdog''), serialization = ''xml''\<rparr> [''<a/>'']
      = Inl NilFuncCall"
    by (simp add: worker_def getUnmarshal_def)
  ultimately show ?thesis
    using sample_Start_kafka [of "''xml''"] by simp
qed

text \<open>
  C2, as the claim states it, fails: with the group identity ''analytics'' configured for
  the ingress, the session is opened under the identity ''tcpdog''.
\<close>

theorem Start_group_identity_counterexample:
  "Group (kafkaConfig sample_env (ingress_settings kafka_server ''kafka'')) = ''analytics''
   \<and> Start sample_env kafka_server ''kafka'' ''json'' =
       (None,
        [ErrorDrain ([''broker1:9092''], ''tcpdog''),
         Supervisor ([''broker1:9092''], ''tcpdog'') [''events''],
         Worker \<lparr>group = ([''broker1:9092''], ''tcpdog''), serialization = ''json''\<rparr>,
         Worker \<lparr>group = ([''broker1:9092''], ''tcpdog''), serialization = ''json''\<rparr>])
   \<and> ''tcpdog'' \<noteq> ''analytics''"
  using sample_Start_kafka [of "''json''"] by (simp add: sample_kafkaConfig_kafka)

text \<open>
  C2, amended. \<open>Start\<close> resolves the broker addresses, the topic and the worker count from
  the settings of the named ingress. The session is opened on the resolved brokers under
  the fixed group identity ''tcpdog''; the supervising task consumes the resolved topic
  from that session, and the resolved worker count is the number of workers.
\<close>

theorem Start_session_parameters:
  assumes "kCfg = kafkaConfig E (ingress_settings srv name)"
      and "saramaConfig E kCfg = Inr sConfig"
      and "NewConsumerGroup E (Brokers kCfg) ''tcpdog'' sConfig = Inr g"
  shows "Start E srv name ser =
           (None,
            [ErrorDrain g, Supervisor g [Topic kCfg]]
              @ replicate (nat (Workers kCfg)) (Worker \<lparr>group = g, serialization = ser\<rparr>))"
  using assms by (simp add: Start_def newConsumerGroup_def Let_def)

theorem Start_session_parameters_witness:
  "saramaConfig sample_env (kafkaConfig sample_env (ingress_settings kafka_server ''kafka''))
     = Inr ()
   \<and> NewConsumerGroup sample_env [''broker1:9092''] ''tcpdog'' () =
       Inr ([''broker1:9092''], ''tcpdog'')
   \<and> Start sample_env kafka_server ''kafka'' ''spb'' =
       (None,
        [ErrorDrain ([''broker1:9092''], ''tcpdog''),
         Supervisor ([''broker1:9092''], ''tcpdog'') [''events'']]
          @ replicate (nat 2)
              (Worker \<lparr>group = ([''broker1:9092''], ''tcpdog''), serialization = ''spb''\<rparr>))"
proof -
  let ?k = "kafkaConfig sample_env (ingress_settings kafka_server ''kafka'')"
  have h1: "saramaConfig sample_env ?k = Inr ()"
    by (simp add: sample_env_def)
  have h2: "NewConsumerGroup sample_env (Brokers ?k) ''tcpdog'' () =
      Inr ([''broker1:9092''], ''tcpdog'')"
    by (simp add: sample_kafkaConfig_kafka) (simp add: sample_env_def)
  show ?thesis
    using Start_session_parameters [OF refl h1 h2, of "''spb''"] h1 h2
    by (simp add: sample_kafkaConfig_kafka)
qed




text \<open>
  C4. The supervising loop is still in the loop after any number of passes, whatever the
  calls of \<open>Consume\<close> return: it has not returned. In \<open>fuel\<close> passes it makes exactly
  \<open>fuel\<close> further calls of \<open>Consume\<close>, one per pass and the next one right after the
  previous return, and it logs exactly the errors those calls returned, in order; a nil
  return is not logged.
\<close>

theorem supervisor_retries_forever:
  "supervise fuel consume st =
     (None,
      \<lparr>calls = calls st + fuel,
       errors_logged = errors_logged st @
         map the (filter (\<lambda>r. r \<noteq> None) (map consume [calls st ..< calls st + fuel]))\<rparr>)"
proof (induction fuel arbitrary: st)
  case 0
  show ?case by (cases st) simp
next
  case (Suc fuel)
  have u: "[calls st ..< calls st + Suc fuel] =
      calls st # [Suc (calls st) ..< Suc (calls st) + fuel]"
    by (simp add: upt_conv_Cons)
  show ?case
    unfolding supervise.simps u by (simp add: Suc.IH split: option.splits)
qed

text \<open>
  C5. Under a registered serialization format, a payload whose decode fails adds one line
  to the log and nothing to the output queue, is handled once, and the worker goes on:
  the payloads before and after it are forwarded as they are without it, and a later
  payload that decodes well is forwarded.
\<close>

theorem worker_drops_failed_decode:
  assumes "getUnmarshal c (serialization k) = Some u"
      and "u bad = (i, Some e)"
      and "u good = (v, None)"
  shows "\<exists>s1 s2 s3 s.
           worker c k pre = Inr s1 \<and> worker c k mid = Inr s2 \<and> worker c k post = Inr s3
           \<and> worker c k (pre @ bad # mid @ good # post) = Inr s
           \<and> forwarded s = forwarded s1 @ forwarded s2 @ v # forwarded s3
           \<and> logged s = logged s1 @ (e, bad) # logged s2 @ logged s3"
  using assms(2,3) by (simp add: worker_decoder [OF assms(1)])

theorem worker_drops_failed_decode_witness:
  "getUnmarshal sample_codec (serialization \<lparr>group = (), serialization = ''json''\<rparr>) \<noteq> None
   \<and> worker sample_codec \<lparr>group = (), serialization = ''json''\<rparr>
       ([''{a}''] @ ''garbage'' # [] @ ''{b}'' # [''{c}'']) =
     Inr \<lparr>forwarded = [JsonMap ''{a}'', JsonMap ''{b}'', JsonMap ''{c}''],
          logged = [(''invalid character'', ''garbage'')]\<rparr>"
proof -
  let ?k = "\<lparr>group = (), serialization = ''json''\<rparr>"
  let ?u = "\<lambda>b. case json_Unmarshal sample_codec b of (m, e) \<Rightarrow> (JsonMap m, e)"
  have h1: "getUnmarshal sample_codec (serialization ?k) = Some ?u"
    by (simp add: getUnmarshal_def)
  have h2: "?u ''garbage'' = (JsonMap [], Some ''invalid character'')"
    by (simp add: sample_codec_def)
  have h3: "?u ''{b}'' = (JsonMap ''{b}'', None)"
    by (simp add: sample_codec_def)
  have e1: "worker sample_codec ?k [''{a}''] = Inr \<lparr>forwarded = [JsonMap ''{a}''], logged = []\<rparr>"
    by (simp add: worker_def getUnmarshal_def sample_codec_def)
  have e2: "worker sample_codec ?k [] = Inr \<lparr>forwarded = [], logged = []\<rparr>"
    by (simp add: worker_def)
  have e3: "worker sample_codec ?k [''{c}''] = Inr \<lparr>forwarded = [JsonMap ''{c}''], logged = []\<rparr>"
    by (simp add: worker_def getUnmarshal_def sample_codec_def)
  from worker_drops_failed_decode [OF h1 h2 h3, of "[''{a}'']" "[]" "[''{c}'']"]
  obtain s where "worker sample_codec ?k ([''{a}''] @ ''garbage'' # [] @ ''{b}'' # [''{c}'']) = Inr s"
    and "forwarded s = [JsonMap ''{a}'', JsonMap ''{b}'', JsonMap ''{c}'']"
    and "logged s = [(''invalid character'', ''garbage'')]"
    unfolding e1 e2 e3 by auto
  then show ?thesis using h1 by (cases s) simp
qed

text \<open>
  C6. For a mapping source, \<open>Transform\<close> returns no error, keeps the fields of the target
  and their order, and gives every field whose name the mapping holds the value the
  mapping has for it. For a channel, and for any other source that is not a mapping, it
  returns the error and the target as it was.
\<close>

theorem Transform_populates_or_rejects:
  "snd (Transform (GMapping m) T) = None
   \<and> map fst (fst (Transform (GMapping m) T)) = map fst T
   \<and> (\<forall>i<length T. \<forall>v. lookup_field m (fst (T ! i)) = Some v \<longrightarrow>
          snd (fst (Transform (GMapping m) T) ! i) = v)
   \<and> Transform GChannel T = (T, Some UnsupportedSource)
   \<and> Transform (GPlain x) T = (T, Some UnsupportedSource)"
  by (simp add: Transform_def populate_def comp_def split: option.splits)

theorem Transform_populates_or_rejects_witness:
  "(1::nat) < length [(''Foo'', GString []), (''Key'', GInt 0)]
   \<and> lookup_field [(''foo'', GString ''bar''), (''key'', GInt 5)] ''Key'' = Some (GInt 5)
   \<and> snd (fst (Transform (GMapping [(''foo'', GString ''bar''), (''key'', GInt 5)])
                 [(''Foo'', GString []), (''Key'', GInt 0)]) ! 1) = GInt 5"
proof -
  let ?m = "[(''foo'', GString ''bar''), (''key'', GInt 5)]"
  let ?T = "[(''Foo'', GString []), (''Key'', GInt 0)]"
  have h1: "(1::nat) < length ?T" by simp
  have h2: "lookup_field ?m ''Key'' = Some (GInt 5)" by code_simp
  have h3: "lookup_field ?m (fst (?T ! 1)) = Some (GInt 5)" using h2 by simp
  have "snd (fst (Transform (GMapping ?m) ?T) ! 1) = GInt 5"
    using Transform_populates_or_rejects [of ?m ?T] h1 h3 by blast
  with h1 h2 show ?thesis by blast
qed

text \<open>
  C7. \<open>setDefault\<close> turns a worker count of zero into 1 and leaves every other count as it
  is, installs the default sink when none is set and keeps a sink that is set, and
  applying it twice gives what applying it once gives.
\<close>

theorem setDefault_idempotent:
  "map TPWorkers (Tracepoints (setDefault c)) =
     map (\<lambda>t. if TPWorkers t = 0 then 1 else TPWorkers t) (Tracepoints c)
   \<and> map Name (Tracepoints (setDefault c)) = map Name (Tracepoints c)
   \<and> logger (setDefault c) = (if logger c = None then Some DefaultLogger else logger c)
   \<and> setDefault (setDefault c) = setDefault c"
proof -
  have "map TPWorkers (Tracepoints (setDefault c)) =
      map (\<lambda>t. if TPWorkers t = 0 then 1 else TPWorkers t) (Tracepoints c)"
    by (simp add: setDefault_def default_workers_def comp_def)
  moreover have "map Name (Tracepoints (setDefault c)) = map Name (Tracepoints c)"
    by (simp add: setDefault_def default_workers_def comp_def)
  moreover have "logger (setDefault c) = (if logger c = None then Some DefaultLogger else logger c)"
    by (simp add: setDefault_def split: option.splits)
  moreover have "setDefault (setDefault c) = setDefault c"
    by (simp add: setDefault_def default_workers_twice comp_def split: option.splits)
  ultimately show ?thesis by blast
qed

text \<open>
  C8. With no \<open>-config\<close> flag after the program name \<open>GetServer\<close> fails. With the flag
  naming a file that holds a document the parser accepts, it succeeds, and the ingress,
  ingestion, geo and flow fields of the result are those of the document.
\<close>

theorem GetServer_flag_mandatory:
  "(''-config'' \<notin> set (drop 1 args) \<longrightarrow> GetServer fs parse args version = Inl MissingConfigFlag)
   \<and> (config_flag (drop 1 args) = Some path \<and> fs path = Some doc \<and> parse doc = Some cfg \<longrightarrow>
        (\<exists>c. GetServer fs parse args version = Inr c
           \<and> Ingress c = Ingress cfg \<and> Ingestion c = Ingestion cfg
           \<and> Geo c = Geo cfg \<and> Flow c = Flow cfg))"
  by (simp add: GetServer_def loadServer_def setDefaultServer_def config_flag_absent)

theorem GetServer_flag_mandatory_witness:
  "''-config'' \<notin> set (drop 1 [''tcpdog''])
   \<and> GetServer sample_files sample_parse [''tcpdog''] ''0.0.0'' = Inl MissingConfigFlag
   \<and> config_flag (drop 1 [''tcpdog'', ''-config'', ''/tmp/config.yml'']) = Some ''/tmp/config.yml''
   \<and> sample_files ''/tmp/config.yml'' = Some ''server document''
   \<and> sample_parse ''server document'' = Some grpc_server
   \<and> (\<exists>c. GetServer sample_files sample_parse [''tcpdog'', ''-config'', ''/tmp/config.yml''] ''0.0.0''
              = Inr c
         \<and> Ingress c = Ingress grpc_server \<and> Ingestion c = Ingestion grpc_server
         \<and> Geo c = Geo grpc_server \<and> Flow c = Flow grpc_server)"
proof -
  have h0: "''-config'' \<notin> set (drop 1 [''tcpdog''])" by simp
  have h1: "config_flag (drop 1 [''tcpdog'', ''-config'', ''/tmp/config.yml'']) =
      Some ''/tmp/config.yml''" by simp
  have h2: "sample_files ''/tmp/config.yml'' = Some ''server document''"
    by (simp add: sample_files_def)
  have h3: "sample_parse ''server document'' = Some grpc_server"
    by (simp add: sample_parse_def)
  show ?thesis
    using GetServer_flag_mandatory [where args = "[''tcpdog'']" and fs = sample_files
        and parse = sample_parse and version = "''0.0.0''"]
      GetServer_flag_mandatory [where args = "[''tcpdog'', ''-config'', ''/tmp/config.yml'']"
        and path = "''/tmp/config.yml''" and fs = sample_files and doc = "''server document''"
        and parse = sample_parse and cfg = grpc_server and version = "''0.0.0''"]
      h0 h1 h2 h3
    by blast
qed

text \<open>
  C9. \<open>GetTLS\<close> fails when the trust-anchor path names no file, and when a certificate
  path is given, whatever it names, with no key. It succeeds on a certificate and key that
  load as a pair together with a trust anchor that parses. \<open>GetCreds\<close> fails exactly when
  \<open>GetTLS\<close> does, with the same error.
\<close>

theorem GetTLS_failure_modes:
  "(fs (CAFile cfg) = None \<longrightarrow> (\<exists>e. GetTLS fs X cfg = Inl e))
   \<and> (CertFile cfg \<noteq> [] \<and> KeyFile cfg = [] \<longrightarrow> (\<exists>e. GetTLS fs X cfg = Inl e))
   \<and> (CertFile cfg \<noteq> [] \<and> KeyFile cfg \<noteq> []
        \<and> fs (CertFile cfg) = Some certPEM \<and> fs (KeyFile cfg) = Some keyPEM
        \<and> X509KeyPair X certPEM keyPEM = Inr cert
        \<and> fs (CAFile cfg) = Some caPEM \<and> AppendCertsFromPEM X caPEM = Some pool \<longrightarrow>
          GetTLS fs X cfg = Inr \<lparr>Certificates = [cert], RootCAs = pool\<rparr>
          \<and> GetCreds fs X cfg = Inr (TransportCredentials \<lparr>Certificates = [cert], RootCAs = pool\<rparr>))
   \<and> (GetCreds fs X cfg = Inl e') = (GetTLS fs X cfg = Inl e')"
proof -
  have a: "fs (CAFile cfg) = None \<longrightarrow> (\<exists>e. GetTLS fs X cfg = Inl e)"
    by (simp add: GetTLS_def load_trust_anchor_def split: sum.splits)
  have b: "CertFile cfg \<noteq> [] \<and> KeyFile cfg = [] \<longrightarrow> (\<exists>e. GetTLS fs X cfg = Inl e)"
    by (simp add: GetTLS_def load_key_pair_def)
  have c: "CertFile cfg \<noteq> [] \<and> KeyFile cfg \<noteq> []
        \<and> fs (CertFile cfg) = Some certPEM \<and> fs (KeyFile cfg) = Some keyPEM
        \<and> X509KeyPair X certPEM keyPEM = Inr cert
        \<and> fs (CAFile cfg) = Some caPEM \<and> AppendCertsFromPEM X caPEM = Some pool \<longrightarrow>
          GetTLS fs X cfg = Inr \<lparr>Certificates = [cert], RootCAs = pool\<rparr>
          \<and> GetCreds fs X cfg = Inr (TransportCredentials \<lparr>Certificates = [cert], RootCAs = pool\<rparr>)"
    by (simp add: GetCreds_def GetTLS_def load_key_pair_def load_trust_anchor_def)
  have d: "(GetCreds fs X cfg = Inl e') = (GetTLS fs X cfg = Inl e')"
    by (simp add: GetCreds_def split: sum.splits)
  from a b c d show ?thesis by blast
qed

theorem GetTLS_failure_modes_witness:
  "sample_files ''foo'' = None
   \<and> (\<exists>e. GetTLS sample_files sample_crypto
            \<lparr>Enable = True, CertFile = ''/tmp/certFile'', KeyFile = ''/tmp/keyFile'',
             CAFile = ''foo''\<rparr> = Inl e)
   \<and> (\<exists>e. GetTLS sample_files sample_crypto
            \<lparr>Enable = True, CertFile = ''foo'', KeyFile = [], CAFile = ''/tmp/caFile''\<rparr> = Inl e)
   \<and> GetTLS sample_files sample_crypto
        \<lparr>Enable = True, CertFile = ''/tmp/certFile'', KeyFile = ''/tmp/keyFile'',
         CAFile = ''/tmp/caFile''\<rparr> = Inr \<lparr>Certificates = [''foo''], RootCAs = [''foo'']\<rparr>"
proof -
  let ?ok = "\<lparr>Enable = True, CertFile = ''/tmp/certFile'', KeyFile = ''/tmp/keyFile'',
              CAFile = ''/tmp/caFile''\<rparr>"
  let ?noca = "\<lparr>Enable = True, CertFile = ''/tmp/certFile'', KeyFile = ''/tmp/keyFile'',
              CAFile = ''foo''\<rparr>"
  let ?nokey = "\<lparr>Enable = True, CertFile = ''foo'', KeyFile = [], CAFile = ''/tmp/caFile''\<rparr>"
  have h1: "sample_files (CAFile ?noca) = None"
    by (simp add: sample_files_def)
  have h2: "CertFile ?nokey \<noteq> [] \<and> KeyFile ?nokey = []"
    by simp
  have h3: "CertFile ?ok \<noteq> [] \<and> KeyFile ?ok \<noteq> []
      \<and> sample_files (CertFile ?ok) = Some ''CERTIFICATE foo''
      \<and> sample_files (KeyFile ?ok) = Some ''RSA PRIVATE KEY foo''
      \<and> X509KeyPair sample_crypto ''CERTIFICATE foo'' ''RSA PRIVATE KEY foo'' = Inr ''foo''
      \<and> sample_files (CAFile ?ok) = Some ''CERTIFICATE foo''
      \<and> AppendCertsFromPEM sample_crypto ''CERTIFICATE foo'' = Some [''foo'']"
    by (simp add: sample_files_def sample_crypto_def)
  have r1: "\<exists>e. GetTLS sample_files sample_crypto ?noca = Inl e"
    using GetTLS_failure_modes [of sample_files ?noca sample_crypto] h1 by blast
  have r2: "\<exists>e. GetTLS sample_files sample_crypto ?nokey = Inl e"
    using GetTLS_failure_modes [of sample_files ?nokey sample_crypto] h2 by blast
  have r3: "GetTLS sample_files sample_crypto ?ok =
      Inr \<lparr>Certificates = [''foo''], RootCAs = [''foo'']\<rparr>"
    using GetTLS_failure_modes [of sample_files ?ok sample_crypto "''CERTIFICATE foo''"
        "''RSA PRIVATE KEY foo''" "''foo''" "''CERTIFICATE foo''" "[''foo'']"] h3
    by blast
  from h1 r1 r2 r3 show ?thesis by simp
qed

text \<open>
  C10. When creating the consumer group fails, \<open>Start\<close> returns that error and has spawned
  no task, so no task of this call ever sends on the output queue, whatever payloads
  arrive. When it succeeds, \<open>Start\<close> returns nil with the error drain, the supervising
  task and the workers spawned; it makes no call of \<open>Consume\<close> itself.
\<close>

theorem Start_failure_spawns_nothing:
  "(newConsumerGroup E (kafkaConfig E (ingress_settings srv name)) = Inl e \<longrightarrow>
      Start E srv name ser = (Some e, [])
      \<and> concat (map (\<lambda>t. task_output c t bs) (snd (Start E srv name ser))) = [])
   \<and> (newConsumerGroup E (kafkaConfig E (ingress_settings srv name)) = Inr cg \<longrightarrow>
      Start E srv name ser =
        (None,
         [ErrorDrain (group cg),
          Supervisor (group cg) [Topic (kafkaConfig E (ingress_settings srv name))]]
           @ replicate (nat (Workers (kafkaConfig E (ingress_settings srv name))))
               (Worker (cg\<lparr>serialization := ser\<rparr>))))"
  by (simp add: Start_on_failure Start_on_success)

theorem Start_failure_spawns_nothing_witness:
  "newConsumerGroup sample_env (kafkaConfig sample_env (ingress_settings kafka_server ''nobroker''))
     = Inl ''kafka: invalid configuration''
   \<and> Start sample_env kafka_server ''nobroker'' ''json'' = (Some ''kafka: invalid configuration'', [])
   \<and> newConsumerGroup sample_env (kafkaConfig sample_env (ingress_settings kafka_server ''kafka''))
     = Inr \<lparr>group = ([''broker1:9092''], ''tcpdog''), serialization = []\<rparr>
   \<and> fst (Start sample_env kafka_server ''kafka'' ''json'') = None
   \<and> length (snd (Start sample_env kafka_server ''kafka'' ''json'')) = 4"
proof -
  have h1: "newConsumerGroup sample_env
      (kafkaConfig sample_env (ingress_settings kafka_server ''nobroker''))
      = Inl ''kafka: invalid configuration''"
    by (simp add: sample_kafkaConfig_nobroker) (simp add: newConsumerGroup_def sample_env_def)
  have h2: "newConsumerGroup sample_env
      (kafkaConfig sample_env (ingress_settings kafka_server ''kafka''))
      = Inr \<lparr>group = ([''broker1:9092''], ''tcpdog''), serialization = []\<rparr>"
    by (simp add: sample_kafkaConfig_kafka) (simp add: newConsumerGroup_def sample_env_def)
  have r1: "Start sample_env kafka_server ''nobroker'' ''json'' =
      (Some ''kafka: invalid configuration'', [])"
    using Start_failure_spawns_nothing [where E = sample_env and srv = kafka_server
        and name = "''nobroker''" and e = "''kafka: invalid configuration''"
        and ser = "''json''"] h1
    by blast
  have r2: "Start sample_env kafka_server ''kafka'' ''json'' =
      (None,
       [ErrorDrain ([''broker1:9092''], ''tcpdog''),
        Supervisor ([''broker1:9092''], ''tcpdog'')
          [Topic (kafkaConfig sample_env (ingress_settings kafka_server ''kafka''))]]
        @ replicate (nat (Workers (kafkaConfig sample_env (ingress_settings kafka_server ''kafka''))))
            (Worker (\<lparr>group = ([''broker1:9092''], ''tcpdog''), serialization = []\<rparr>
                      \<lparr>serialization := ''json''\<rparr>)))"
    using Start_failure_spawns_nothing [where E = sample_env and srv = kafka_server
        and name = "''kafka''" and ser = "''json''"
        and cg = "\<lparr>group = ([''broker1:9092''], ''tcpdog''), serialization = []\<rparr>"] h2
    by simp
  have r3: "fst (Start sample_env kafka_server ''kafka'' ''json'') = None
      \<and> length (snd (Start sample_env kafka_server ''kafka'' ''json'')) = 4"
    unfolding r2 by (simp add: sample_kafkaConfig_kafka)
  from h1 h2 r1 r3 show ?thesis by simp
qed

end
